theory Spec2Isabelle
  imports Main
begin

section \<open>Python values\<close>

text \<open>
  A Python \<open>str\<close> is a sequence of Unicode code points, so it is modelled as a list of
  natural numbers; \<open>lit\<close> turns an ASCII literal into that form.  The literals of
  \<open>scripts/enhanced-bot.py\<close> carry their leading pictographs in a mis-decoded form; the
  \<open>glyph_*\<close> constants hold exactly the code points that stand in the source file.
\<close>

type_synonym str = "nat list"

definition lit :: "string \<Rightarrow> str" where
  "lit s = map of_char s"

text \<open>Truthiness of an optional string: \<open>None\<close> and \<open>''\<close> are falsy.\<close>

definition truthy :: "str option \<Rightarrow> bool" where
  "truthy v = (case v of None \<Rightarrow> False | Some s \<Rightarrow> s \<noteq> [])"

text \<open>\<open>a or b\<close> on optional strings.\<close>

definition py_or :: "str option \<Rightarrow> str option \<Rightarrow> str option" where
  "py_or a b = (if truthy a then a else b)"

text \<open>\<open>str(n)\<close> for an integer, and the \<open>0w\<close> zero padding of \<open>%02d\<close>, \<open>:02d\<close>, \<open>%06d\<close>.\<close>

fun str_nat :: "nat \<Rightarrow> str" where
  "str_nat n = (if n < 10 then [48 + n] else str_nat (n div 10) @ [48 + n mod 10])"

definition str_int :: "int \<Rightarrow> str" where
  "str_int i = (if i < 0 then 45 # str_nat (nat (- i)) else str_nat (nat i))"

definition zero_pad :: "nat \<Rightarrow> int \<Rightarrow> str" where
  "zero_pad w i =
     (let ds = str_nat (nat \<bar>i\<bar>)
      in if i < 0 then 45 # replicate (w - 1 - length ds) 48 @ ds
         else replicate (w - length ds) 48 @ ds)"

text \<open>The f-string rendering of a value that may be \<open>None\<close>.\<close>

definition fstr_opt :: "str option \<Rightarrow> str" where
  "fstr_opt v = (case v of None \<Rightarrow> lit ''None'' | Some s \<Rightarrow> s)"

text \<open>
  Exceptions are values.  \<open>str_error\<close> is \<open>str(e)\<close>: a \<open>KeyError\<close> prints the
  quoted key, the others print their message.
\<close>

datatype error =
    KeyError str
  | ValueError str
  | IndexError str
  | TypeError str
  | OSError str

fun str_error :: "error \<Rightarrow> str" where
  "str_error (KeyError k) = lit [CHR 0x27] @ k @ lit [CHR 0x27]"
| "str_error (ValueError m) = m"
| "str_error (IndexError m) = m"
| "str_error (TypeError m) = m"
| "str_error (OSError m) = m"

text \<open>
  A naive \<open>datetime\<close> is a count of microseconds on the local clock and a
  \<open>timedelta\<close> a difference of two.  \<open>str_timedelta\<close> is \<open>timedelta.__str__\<close>:
  \<open>[D day[s], ]H:MM:SS[.UUUUUU]\<close> on the normalised days, seconds and microseconds.
\<close>

type_synonym datetime = int
type_synonym timedelta = int

definition str_timedelta :: "timedelta \<Rightarrow> str" where
  "str_timedelta d =
     (let days = d div 86400000000;
          r = d mod 86400000000;
          secs = r div 1000000;
          us = r mod 1000000;
          mm = secs div 60;
          ss = secs mod 60;
          hh = mm div 60;
          mi = mm mod 60;
          s = str_int hh @ lit '':'' @ zero_pad 2 mi @ lit '':'' @ zero_pad 2 ss;
          s1 = (if days \<noteq> 0
                then str_int days @ lit '' day'' @ (if \<bar>days\<bar> \<noteq> 1 then lit ''s'' else [])
                       @ lit '', '' @ s
                else s)
      in if us \<noteq> 0 then s1 @ lit ''.'' @ zero_pad 6 us else s1)"

text \<open>
  The two methods of \<open>str\<close> whose full behaviour lives in the Python runtime are
  parameters of the model: \<open>template.format(**kwargs)\<close>, which returns the text or
  raises, and \<open>s.lower()\<close>.  Every theorem below holds for whatever they compute.
\<close>

record pylib =
  str_format :: "str \<Rightarrow> (str \<times> str) list \<Rightarrow> error + str"
  str_lower :: "str \<Rightarrow> str"

text \<open>The \<open>prompts\<close> dictionary and \<open>prompts.get(key, default)\<close>.\<close>

type_synonym prompts = "str \<rightharpoonup> str"

definition prompts_get :: "prompts \<Rightarrow> str \<Rightarrow> str \<Rightarrow> str" where
  "prompts_get p key dflt = (case p key of None \<Rightarrow> dflt | Some v \<Rightarrow> v)"

section \<open>The recording session of \<open>scripts/enhanced-bot.py\<close>\<close>

text \<open>The global \<open>recording_state\<close> dictionary, one field per key.\<close>

record recording_state =
  active :: bool
  start_time :: "datetime option"
  duration_minutes :: int
  recording_filename :: "str option"
  participants :: "str list"
  youtube_upload_id :: "str option"
  github_commit_url :: "str option"
  transcript_path :: "str option"

definition recording_state_init :: recording_state where
  "recording_state_init =
     \<lparr> active = False, start_time = None, duration_minutes = 0,
       recording_filename = None, participants = [], youtube_upload_id = None,
       github_commit_url = None, transcript_path = None \<rparr>"

text \<open>What a handler reads of the command context.\<close>

record ctx =
  guild :: "str option"
  channel_name :: str
  author_display_name :: str

text \<open>A \<open>Path\<close>, by the three views the code takes of it.\<close>

record path =
  path_str :: str
  path_name :: str
  path_stem :: str

subsection \<open>Messages\<close>

definition glyph_question :: str where "glyph_question = [0x201A, 0xF9, 0xEC]"
definition glyph_warning :: str where "glyph_warning = [0x201A, 0xF6, 0x2020, 0xD4, 0x220F, 0xE8]"
definition glyph_cross :: str where "glyph_cross = [0x201A, 0xF9, 0xE5]"
definition glyph_clock :: str where "glyph_clock = [0x201A, 0xE8, 0x221E]"
definition glyph_check :: str where "glyph_check = [0x201A, 0xFA, 0xD6]"
definition glyph_cycle :: str where "glyph_cycle = [0xF8FF, 0xFC, 0xEE, 0xD1]"
definition glyph_blue :: str where "glyph_blue = [0xF8FF, 0xFC, 0xFC, 0xB6]"
definition glyph_red :: str where "glyph_red = [0xF8FF, 0xFC, 0xEE, 0xA5]"
definition glyph_tv :: str where "glyph_tv = [0xF8FF, 0xFC, 0xEC, 0x222B]"
definition glyph_folder :: str where "glyph_folder = [0xF8FF, 0xFC, 0xEC, 0xC5]"
definition glyph_memo :: str where "glyph_memo = [0xF8FF, 0xFC, 0xEC, 0xF9]"

text \<open>
  Every text the bot sends, tagged by the \<open>ctx.send\<close> call it comes from.  A message
  whose text is built at run time carries that text; \<open>render\<close> gives the text sent.
\<close>

datatype notice =
    Usage
  | UnknownSubcommand str
  | AlreadyRecording
  | ObsStartFailed
  | Started str
  | TimeLimitReached
  | StartFailed error
  | NoRecording
  | ObsStopFailed
  | Stopped str
  | StopFailed error
  | ProcessingStarted
  | RecordingFileNotFound
  | GithubCommitted str
  | VideoUploaded str
  | CloudUploaded str
  | ProcessingComplete
  | ProcessingFailed error
  | NotActive
  | StatusActive str
  | NoRecordingsFound
  | AvailableRecordings str
  | UploadReady
  | UploadFailed error

fun render :: "notice \<Rightarrow> str" where
  "render Usage = glyph_question @ lit '' Usage: `/record start [minutes]` | `/record stop` | `/record status` | `/record upload`''"
| "render (UnknownSubcommand s) = glyph_question @ lit '' Unknown subcommand: '' @ s"
| "render AlreadyRecording = glyph_warning @ lit '' Recording already in progress!''"
| "render ObsStartFailed = glyph_cross @ lit '' Failed to start OBS recording''"
| "render (Started m) = m"
| "render TimeLimitReached = glyph_clock @ lit '' Recording time limit reached. Stopping...''"
| "render (StartFailed e) = glyph_cross @ lit '' Failed to start recording: '' @ str_error e"
| "render NoRecording = glyph_warning @ lit '' No recording in progress!''"
| "render ObsStopFailed = glyph_cross @ lit '' Failed to stop OBS recording''"
| "render (Stopped m) = m"
| "render (StopFailed e) = glyph_cross @ lit '' Failed to stop recording: '' @ str_error e"
| "render ProcessingStarted = glyph_cycle @ lit '' Starting post-recording processing...''"
| "render RecordingFileNotFound = glyph_cross @ lit '' Recording file not found for processing''"
| "render (GithubCommitted m) = m"
| "render (VideoUploaded m) = m"
| "render (CloudUploaded m) = m"
| "render ProcessingComplete = glyph_check @ lit '' Processing complete!''"
| "render (ProcessingFailed e) = glyph_cross @ lit '' Processing failed: '' @ str_error e"
| "render NotActive = glyph_blue @ lit '' Recording is not active''"
| "render (StatusActive m) = m"
| "render NoRecordingsFound = lit ''No recordings found for upload''"
| "render (AvailableRecordings m) = m"
| "render UploadReady = lit ''Upload functionality ready - select recording to upload''"
| "render (UploadFailed e) = glyph_cross @ lit '' Upload failed: '' @ str_error e"

text \<open>
  What a handler does besides updating \<open>recording_state\<close>, in the order it does it:
  the messages it sends, the calls it makes on the collaborator objects, the sleep of the
  automatic-stop timer, the background task it creates, and an exception that leaves the
  handler uncaught.  The notification channel is taken as reliable: \<open>ctx.send\<close> returns.
\<close>

datatype event =
    Send notice
  | StartRecording
  | StopRecording
  | Sleep int
  | CreateTask "str option"
  | GenerateTranscript path
  | UploadTranscript str "(str \<times> str) list"
  | UploadVideo path str str
  | UploadToS3 path
  | UploadToRclone path
  | Uncaught error

subsection \<open>The OBS controller\<close>

text \<open>
  What the recorder answers: whether the websocket connects, and whether the request sent
  over it goes through.  Both methods catch every exception and return \<open>False\<close>.
\<close>

record obs_reply =
  connect_ok :: bool
  request_ok :: bool

definition get_connection :: "obs_reply \<Rightarrow> unit option" where
  "get_connection r = (if connect_ok r then Some () else None)"

definition start_recording :: "obs_reply \<Rightarrow> bool" where
  "start_recording r =
     (case get_connection r of
        None \<Rightarrow> False
      | Some obs \<Rightarrow> if request_ok r then True else False)"

definition stop_recording :: "obs_reply \<Rightarrow> bool" where
  "stop_recording r =
     (case get_connection r of
        None \<Rightarrow> False
      | Some obs \<Rightarrow> if request_ok r then True else False)"

subsection \<open>The command handlers\<close>

text \<open>
  What the outside world answers during one command: the recorder, the clock at
  \<open>datetime.now()\<close>, the text of \<open>datetime.now().strftime('%Y-%m-%d_%H-%M-%S')\<close> (a second
  reading of the clock), and the \<open>*.mp4\<close> files of the recordings directory with their
  modification times (or the exception that listing them raises).
\<close>

record cmd_env =
  obs :: obs_reply
  now :: datetime
  now_stamp :: str
  mp4_files :: "error + (str \<times> int) list"

text \<open>
  \<open>handle_record_stop\<close>.  Subtracting \<open>None\<close> from a datetime raises \<open>TypeError\<close>,
  which the handler's \<open>except\<close> reports.
\<close>

definition none_minus_error :: error where
  "none_minus_error =
     TypeError (lit (''unsupported operand type(s) for -: '' @ [CHR 0x27] @ ''datetime.datetime''
       @ [CHR 0x27] @ '' and '' @ [CHR 0x27] @ ''NoneType'' @ [CHR 0x27]))"

definition handle_record_stop ::
  "prompts \<Rightarrow> cmd_env \<Rightarrow> recording_state \<Rightarrow> recording_state \<times> event list" where
  "handle_record_stop p env st =
     (if \<not> active st then (st, [Send NoRecording])
      else if \<not> stop_recording (obs env) then (st, [StopRecording, Send ObsStopFailed])
      else case start_time st of
             None \<Rightarrow> (st, [StopRecording, Send (StopFailed none_minus_error)])
           | Some t0 \<Rightarrow>
               let duration = now env - t0;
                   filename = recording_filename st;
                   st' = st\<lparr> active := False, start_time := None, duration_minutes := 0,
                             recording_filename := None \<rparr>;
                   stop_msg = prompts_get p (lit ''recording_stop'') (lit ''Recording stopped'')
               in (st', [StopRecording,
                         Send (Stopped (stop_msg @ lit '' Duration: '' @ str_timedelta duration)),
                         CreateTask filename]))"

text \<open>
  \<open>handle_record_start\<close> up to its \<open>await asyncio.sleep(minutes * 60)\<close>: the trace ends
  with \<open>Sleep\<close> exactly when the handler suspends there.
\<close>

definition handle_record_start ::
  "pylib \<Rightarrow> prompts \<Rightarrow> ctx \<Rightarrow> int \<Rightarrow> cmd_env \<Rightarrow> recording_state
     \<Rightarrow> recording_state \<times> event list" where
  "handle_record_start lib p c minutes env st =
     (if active st then (st, [Send AlreadyRecording])
      else if \<not> start_recording (obs env) then (st, [StartRecording, Send ObsStartFailed])
      else
        let st' = st\<lparr> active := True, start_time := Some (now env),
                      duration_minutes := minutes,
                      recording_filename := Some (now_stamp env), participants := [],
                      youtube_upload_id := None, github_commit_url := None,
                      transcript_path := None \<rparr>;
            minutes_str = (if minutes > 0 then lit '' for '' @ str_int minutes @ lit '' minutes''
                           else [])
        in case str_format lib
                  (prompts_get p (lit ''recording_start'') (lit ''Recording started''))
                  [(lit ''channel_name'', channel_name c)] of
             Inl e \<Rightarrow> (st', [StartRecording, Send (StartFailed e)])
           | Inr start_msg \<Rightarrow>
               (st', [StartRecording, Send (Started (start_msg @ minutes_str))]
                     @ (if minutes > 0 then [Sleep (minutes * 60)] else [])))"

text \<open>
  The rest of \<open>handle_record_start\<close>, run when the sleep is over, on the session state of
  that moment.  If a session is active it sends the time-limit message and goes on to
  \<open>await handle_record_stop(ctx)\<close>; the flag says whether it does.  The handler is
  suspended while the message is sent, so \<open>handle_record_stop\<close> then runs on the session
  state of that later moment and tests \<open>active\<close> again itself.
\<close>

definition handle_record_start_resume :: "recording_state \<Rightarrow> event list \<times> bool" where
  "handle_record_start_resume st =
     (if active st then ([Send TimeLimitReached], True) else ([], False))"

text \<open>
  \<open>handle_record_status\<close> has no \<open>try\<close>: the \<open>TypeError\<close> of a missing start time would
  leave it uncaught.  The minutes and seconds are \<open>divmod(duration.total_seconds(), 60)\<close>
  cut to integers, computed here on whole microseconds.
\<close>

definition handle_record_status :: "cmd_env \<Rightarrow> recording_state \<Rightarrow> event list" where
  "handle_record_status env st =
     (if \<not> active st then [Send NotActive]
      else case start_time st of
             None \<Rightarrow> [Uncaught none_minus_error]
           | Some t0 \<Rightarrow>
               let duration = now env - t0;
                   minutes = duration div 60000000;
                   seconds = (duration mod 60000000) div 1000000;
                   m0 = glyph_red @ lit '' Recording active for '' @ zero_pad 2 minutes
                          @ lit '':'' @ zero_pad 2 seconds;
                   m1 = (if truthy (youtube_upload_id st)
                         then m0 @ lit '' | '' @ glyph_tv @ lit '' YouTube: Pending upload''
                         else m0);
                   m2 = (if truthy (github_commit_url st)
                         then m1 @ lit '' | '' @ glyph_folder @ lit '' GitHub: Committed''
                         else m1);
                   m3 = (if truthy (transcript_path st)
                         then m2 @ lit '' | '' @ glyph_memo @ lit '' Transcript: Generated''
                         else m2)
               in [Send (StatusActive m3)])"

text \<open>\<open>handle_manual_upload\<close>: the five most recently modified recordings, numbered from 1.\<close>

fun str_join :: "str \<Rightarrow> str list \<Rightarrow> str" where
  "str_join sep [] = []"
| "str_join sep [l] = l"
| "str_join sep (l # m # ls) = l @ sep @ str_join sep (m # ls)"

definition handle_manual_upload :: "cmd_env \<Rightarrow> event list" where
  "handle_manual_upload env =
     (case mp4_files env of
        Inl e \<Rightarrow> [Send (UploadFailed e)]
      | Inr files \<Rightarrow>
          let recordings = take 5 (sort_key (\<lambda>f. - snd f) files) in
          if recordings = [] then [Send NoRecordingsFound]
          else
            let upload_options =
                  map (\<lambda>(i, r). str_nat i @ lit ''. '' @ fst r) (enumerate 1 recordings)
            in [Send (AvailableRecordings
                        (glyph_folder @ lit '' Available recordings:'' @ [10]
                           @ str_join [10] upload_options)),
                Send UploadReady])"

text \<open>\<open>record_command\<close>, the entry point of \<open>/record\<close>.\<close>

definition record_command ::
  "pylib \<Rightarrow> prompts \<Rightarrow> ctx \<Rightarrow> str option \<Rightarrow> int \<Rightarrow> cmd_env \<Rightarrow> recording_state
     \<Rightarrow> recording_state \<times> event list" where
  "record_command lib p c subcommand minutes env st =
     (if guild c = None then (st, [])
      else case subcommand of
             None \<Rightarrow> (st, [Send Usage])
           | Some s \<Rightarrow>
               let sub = str_lower lib s in
               if sub = lit ''start'' then handle_record_start lib p c minutes env st
               else if sub = lit ''stop'' then handle_record_stop p env st
               else if sub = lit ''status'' then (st, handle_record_status env st)
               else if sub = lit ''upload'' then (st, handle_manual_upload env)
               else (st, [Send (UnknownSubcommand sub)]))"

subsection \<open>The collaborators of the post-processing pipeline\<close>

text \<open>
  Each service object keeps the configuration values it was built from (the values of
  \<open>os.getenv\<close>: a string, or \<open>None\<close> when the variable is not set).
\<close>

record youtube_uploader =
  client_id :: "str option"
  client_secret :: "str option"
  api_key :: "str option"

record github_integrator =
  token :: "str option"
  repo :: "str option"

record cloud_uploader =
  s3_bucket :: "str option"
  rclone_remote :: "str option"

record services =
  youtube :: youtube_uploader
  github :: github_integrator
  cloud :: cloud_uploader
  transcripts_dir :: str

text \<open>
  What the outside world answers during one run of the pipeline: the files that
  \<open>recordings_dir.glob(f"{filename}.mp4")\<close> finds, whether the transcript file could be
  written, what reading it back gives, the clock readings rendered by \<open>strftime\<close>, what
  the two GitHub exchanges give (\<open>None\<close> for a refusal or an exception), whether the S3
  transfer went through without an exception, and the exit code of \<open>rclone\<close> (\<open>None\<close>
  when running it raised).
\<close>

record pipeline_env =
  glob_result :: "path list"
  transcript_written :: bool
  transcript_read :: "error + str"
  now_description :: str
  transcript_commit :: "str option"
  metadata_commit :: "str option"
  now_upload_id :: str
  s3_uploaded :: bool
  rclone_returncode :: "int option"

text \<open>\<open>TranscriptGenerator.generate_transcript\<close>: the path written, or \<open>None\<close>.\<close>

definition generate_transcript :: "services \<Rightarrow> path \<Rightarrow> pipeline_env \<Rightarrow> str option" where
  "generate_transcript sv audio_file env =
     (if transcript_written env
      then Some (transcripts_dir sv @ lit ''/'' @ path_stem audio_file @ lit ''.txt'')
      else None)"

text \<open>\<open>GitHubIntegrator.commit_file\<close> and \<open>upload_transcript\<close>.\<close>

definition commit_file :: "github_integrator \<Rightarrow> str option \<Rightarrow> str option" where
  "commit_file gh exchange =
     (if \<not> (truthy (token gh) \<and> truthy (repo gh)) then None else exchange)"

definition upload_transcript :: "github_integrator \<Rightarrow> pipeline_env \<Rightarrow> str option" where
  "upload_transcript gh env =
     (let transcript_commit = commit_file gh (transcript_commit env);
          metadata_commit = commit_file gh (metadata_commit env)
      in py_or transcript_commit metadata_commit)"

text \<open>\<open>YouTubeUploader.upload_video\<close>: a simulated upload that fabricates its identifier.\<close>

definition upload_video :: "youtube_uploader \<Rightarrow> pipeline_env \<Rightarrow> str option" where
  "upload_video yt env =
     (if \<not> (truthy (client_id yt) \<and> truthy (client_secret yt) \<and> truthy (api_key yt))
      then None
      else Some (lit ''upload_'' @ now_upload_id env))"

text \<open>
  \<open>CloudUploader.upload_to_s3\<close> and \<open>upload_to_rclone\<close>.  Both return before their
  \<open>try\<close> when nothing is configured, and catch every exception inside it, so a
  \<open>bool\<close> is all that can come back.
\<close>

definition upload_to_s3 :: "cloud_uploader \<Rightarrow> pipeline_env \<Rightarrow> bool" where
  "upload_to_s3 cu env =
     (if \<not> truthy (s3_bucket cu) then False
      else if s3_uploaded env then True else False)"

definition upload_to_rclone :: "cloud_uploader \<Rightarrow> pipeline_env \<Rightarrow> bool" where
  "upload_to_rclone cu env =
     (if \<not> truthy (rclone_remote cu) then False
      else case rclone_returncode env of
             None \<Rightarrow> False
           | Some rc \<Rightarrow> if rc = 0 then True else False)"

subsection \<open>The post-processing pipeline\<close>

text \<open>
  \<open>process_recording_pipeline(filename, ctx)\<close> is written here as its three stretches
  between suspension points, each returning the session state, its trace, and whether the
  pipeline goes on (\<open>False\<close>: an exception reached the \<open>except\<close> at the bottom, which
  reports it and ends the task).  The pipeline has no local \<open>duration\<close>, so the metadata
  always carries 0.
\<close>

definition pipeline_transcript ::
  "pylib \<Rightarrow> prompts \<Rightarrow> services \<Rightarrow> ctx \<Rightarrow> str option \<Rightarrow> path \<Rightarrow> pipeline_env
     \<Rightarrow> recording_state \<Rightarrow> recording_state \<times> event list \<times> bool" where
  "pipeline_transcript lib p sv c filename recording_file env st =
     (let tp = generate_transcript sv recording_file env in
      if \<not> truthy tp then (st, [GenerateTranscript recording_file], True)
      else
        let st1 = st\<lparr> transcript_path := tp \<rparr> in
        case transcript_read env of
          Inl e \<Rightarrow>
            (st1, [GenerateTranscript recording_file, Send (ProcessingFailed e)], False)
        | Inr transcript_content \<Rightarrow>
            let video_metadata =
                  [(lit ''title'', lit ''Recording '' @ fstr_opt filename),
                   (lit ''description'', lit ''Recording from '' @ now_description env),
                   (lit ''duration'', str_int 0),
                   (lit ''discord_channel'', channel_name c),
                   (lit ''recording_user'', author_display_name c)];
                github_url = upload_transcript (github sv) env;
                evs = [GenerateTranscript recording_file,
                       UploadTranscript transcript_content video_metadata]
            in (case github_url of
                  None \<Rightarrow> (st1, evs, True)
                | Some url \<Rightarrow>
                    if url = [] then (st1, evs, True)
                    else
                      let st2 = st1\<lparr> github_commit_url := Some url \<rparr> in
                      (case str_format lib
                              (prompts_get p (lit ''github_commit'') (lit ''Files committed to GitHub''))
                              [(lit ''commit_url'', url)] of
                         Inl e \<Rightarrow> (st2, evs @ [Send (ProcessingFailed e)], False)
                       | Inr github_msg \<Rightarrow>
                           (st2, evs @ [Send (GithubCommitted github_msg)], True))))"

definition pipeline_youtube ::
  "pylib \<Rightarrow> prompts \<Rightarrow> services \<Rightarrow> ctx \<Rightarrow> str option \<Rightarrow> path \<Rightarrow> pipeline_env
     \<Rightarrow> recording_state \<Rightarrow> recording_state \<times> event list \<times> bool" where
  "pipeline_youtube lib p sv c filename recording_file env st =
     (let evs = [UploadVideo recording_file (lit ''Recording '' @ fstr_opt filename)
                   (lit ''Automated recording from Discord channel '' @ channel_name c)]
      in case upload_video (youtube sv) env of
           None \<Rightarrow> (st, evs, True)
         | Some youtube_id \<Rightarrow>
             if youtube_id = [] then (st, evs, True)
             else
               let st1 = st\<lparr> youtube_upload_id := Some youtube_id \<rparr> in
               (case str_format lib
                       (prompts_get p (lit ''upload_success'') (lit ''Video uploaded''))
                       [(lit ''video_url'', lit ''https://youtube.com/watch?v='' @ youtube_id)] of
                  Inl e \<Rightarrow> (st1, evs @ [Send (ProcessingFailed e)], False)
                | Inr upload_msg \<Rightarrow> (st1, evs @ [Send (VideoUploaded upload_msg)], True)))"

definition pipeline_cloud ::
  "pylib \<Rightarrow> prompts \<Rightarrow> services \<Rightarrow> path \<Rightarrow> pipeline_env \<Rightarrow> event list" where
  "pipeline_cloud lib p sv recording_file env =
     (let s3_success = upload_to_s3 (cloud sv) env;
          rclone_success = upload_to_rclone (cloud sv) env;
          evs = [UploadToS3 recording_file, UploadToRclone recording_file]
      in if s3_success \<or> rclone_success
         then case str_format lib
                     (prompts_get p (lit ''cloud_upload'') (lit ''Uploaded to cloud storage''))
                     [(lit ''file_path'', path_name recording_file)] of
                Inl e \<Rightarrow> evs @ [Send (ProcessingFailed e)]
              | Inr cloud_msg \<Rightarrow> evs @ [Send (CloudUploaded cloud_msg), Send ProcessingComplete]
         else evs @ [Send ProcessingComplete])"

definition process_recording_pipeline ::
  "pylib \<Rightarrow> prompts \<Rightarrow> services \<Rightarrow> str option \<Rightarrow> ctx \<Rightarrow> pipeline_env
     \<Rightarrow> recording_state \<Rightarrow> recording_state \<times> event list" where
  "process_recording_pipeline lib p sv filename c env st =
     (case glob_result env of
        [] \<Rightarrow> (st, [Send ProcessingStarted, Send RecordingFileNotFound])
      | recording_file # others \<Rightarrow>
          let (st1, evs1, go1) = pipeline_transcript lib p sv c filename recording_file env st in
          if \<not> go1 then (st1, Send ProcessingStarted # evs1)
          else
            let (st2, evs2, go2) = pipeline_youtube lib p sv c filename recording_file env st1 in
            if \<not> go2 then (st2, Send ProcessingStarted # evs1 @ evs2)
            else (st2, Send ProcessingStarted # evs1 @ evs2
                         @ pipeline_cloud lib p sv recording_file env))"

subsection \<open>Reachable session states\<close>

text \<open>
  The event loop runs one stretch of one task at a time.  A session state is reachable
  when it is the initial one, or comes from a reachable one by a \<open>/record\<close> command, by
  the stop handler that a woken automatic-stop timer calls, or by a stretch of a pipeline
  task, whatever the arguments and whatever the outside world answers.
\<close>

inductive reachable :: "recording_state \<Rightarrow> bool" where
  reach_init: "reachable recording_state_init"
| reach_command:
    "reachable st \<Longrightarrow> reachable (fst (record_command lib p c subcommand minutes env st))"
| reach_timer:
    "reachable st \<Longrightarrow> reachable (fst (handle_record_stop p env st))"
| reach_transcript:
    "reachable st \<Longrightarrow> reachable (fst (pipeline_transcript lib p sv c filename file penv st))"
| reach_youtube:
    "reachable st \<Longrightarrow> reachable (fst (pipeline_youtube lib p sv c filename file penv st))"
| reach_pipeline:
    "reachable st \<Longrightarrow> reachable (fst (process_recording_pipeline lib p sv filename c penv st))"

text \<open>The invariant of the data model: a start time is held exactly while recording.\<close>

definition session_inv :: "recording_state \<Rightarrow> bool" where
  "session_inv st = ((start_time st \<noteq> None) = active st)"

section \<open>The text substitution of \<open>scripts/configure-bot-name.py\<close>\<close>

text \<open>\<open>str.isspace\<close> on one code point, \<open>str.strip()\<close> and \<open>str.startswith\<close>.\<close>

definition isspace :: "nat \<Rightarrow> bool" where
  "isspace c =
     ((9 \<le> c \<and> c \<le> 13) \<or> (28 \<le> c \<and> c \<le> 32) \<or> c = 0x85 \<or> c = 0xA0 \<or> c = 0x1680
      \<or> (0x2000 \<le> c \<and> c \<le> 0x200A) \<or> c = 0x2028 \<or> c = 0x2029 \<or> c = 0x202F
      \<or> c = 0x205F \<or> c = 0x3000)"

definition py_strip :: "str \<Rightarrow> str" where
  "py_strip s = rev (dropWhile isspace (rev (dropWhile isspace s)))"

definition startswith :: "str \<Rightarrow> str \<Rightarrow> bool" where
  "startswith s pre = (take (length pre) s = pre)"

text \<open>\<open>content.split('\n')\<close>: always at least one line.\<close>

fun str_split :: "nat \<Rightarrow> str \<Rightarrow> str list" where
  "str_split sep [] = [[]]"
| "str_split sep (c # cs) =
     (if c = sep then [] # str_split sep cs
      else case str_split sep cs of
             [] \<Rightarrow> [[c]]
           | l # ls \<Rightarrow> (c # l) # ls)"

definition name_prefix :: str where
  "name_prefix = lit ''DISCORD_BOT_NAME=''"

definition section_header :: str where
  "section_header = lit ''# Discord Bot Configuration''"

definition name_line :: "str \<Rightarrow> str" where
  "name_line new_bot_name =
     name_prefix @ new_bot_name @ lit ''  # '' @ [0x2728]
       @ lit '' EASY TO CUSTOMIZE: Change this to name your bot''"

text \<open>
  The first loop: the first line that starts with \<open>DISCORD_BOT_NAME=\<close> is replaced, and
  the flag \<open>updated\<close> says whether there was one.
\<close>

fun replace_name_line :: "str \<Rightarrow> str list \<Rightarrow> str list \<times> bool" where
  "replace_name_line new [] = ([], False)"
| "replace_name_line new (line # rest) =
     (if startswith line name_prefix then (new # rest, True)
      else let (rest', updated) = replace_name_line new rest in (line # rest', updated))"

text \<open>The second loop: the line goes in after the first section header, if there is one.\<close>

fun insert_after_header :: "str \<Rightarrow> str list \<Rightarrow> str list" where
  "insert_after_header new [] = []"
| "insert_after_header new (line # rest) =
     (if py_strip line = section_header then line # new # rest
      else line # insert_after_header new rest)"

definition update_env_lines :: "str list \<Rightarrow> str \<Rightarrow> str list" where
  "update_env_lines lines new_bot_name =
     (let (lines1, updated) = replace_name_line (name_line new_bot_name) lines
      in if \<not> updated then insert_after_header (name_line new_bot_name) lines1 else lines1)"

text \<open>
  The file is opened in text mode, for reading and then for writing.  Reading decodes the
  file and turns every \<open>\r\n\<close> and every lone \<open>\r\<close> into \<open>\n\<close>
  (\<open>universal_newlines\<close>); writing turns every \<open>\n\<close> into the platform's line
  separator (\<open>write_newlines\<close>) and encodes the result.  The codec and the line
  separator belong to the platform and are parameters: \<open>encode_error\<close> gives the
  exception that encoding a text raises, if it raises one.
\<close>

fun universal_newlines :: "str \<Rightarrow> str" where
  "universal_newlines [] = []"
| "universal_newlines [c] = (if c = 13 then [10] else [c])"
| "universal_newlines (c # d # cs) =
     (if c = 13 \<and> d = 10 then 10 # universal_newlines cs
      else if c = 13 then 10 # universal_newlines (d # cs)
      else c # universal_newlines (d # cs))"

definition write_newlines :: "str \<Rightarrow> str \<Rightarrow> str" where
  "write_newlines sep text = concat (map (\<lambda>c. if c = 10 then sep else [c]) text)"

record text_io =
  encode_error :: "str \<Rightarrow> error option"
  linesep :: str

text \<open>
  What a call leaves of the file: untouched, emptied (opening for writing truncates the
  file, and a text that cannot be encoded is not written), or rewritten with the
  characters given.
\<close>

datatype file_outcome = Untouched | Truncated | Rewritten str

text \<open>
  \<open>update_env_file\<close>.  The file comes as what decoding it gives: its characters, or the
  exception raised by \<open>f.read()\<close>, in which case the function ends before the file is
  opened for writing.  The result is what is left of the file and the exception that
  leaves the function, if any.
\<close>

definition update_env_file ::
  "text_io \<Rightarrow> error + str \<Rightarrow> str \<Rightarrow> file_outcome \<times> error option" where
  "update_env_file io decoded new_bot_name =
     (case decoded of
        Inl e \<Rightarrow> (Untouched, Some e)
      | Inr chars \<Rightarrow>
          let content = universal_newlines chars;
              lines = update_env_lines (str_split 10 content) new_bot_name;
              out = write_newlines (linesep io) (str_join [10] lines)
          in (case encode_error io out of
                Some e \<Rightarrow> (Truncated, Some e)
              | None \<Rightarrow> (Rewritten out, None)))"

section \<open>A concrete runtime and concrete inputs\<close>

text \<open>
  The concrete runs below need a concrete \<open>pylib\<close>.  \<open>named_format\<close> is
  \<open>str.format\<close> on the templates the bot is shipped with and their like: literal
  text, doubled braces, and replacement fields that are a plain keyword name.  The option
  holds the name of the field being read.  \<open>ascii_lower\<close> lowers the letters A to Z.
\<close>

definition prepend :: "str \<Rightarrow> error + str \<Rightarrow> error + str" where
  "prepend v r = (case r of Inl e \<Rightarrow> Inl e | Inr s \<Rightarrow> Inr (v @ s))"

definition single_brace_error :: "char \<Rightarrow> error" where
  "single_brace_error b =
     ValueError (lit (''Single '' @ [CHR 0x27, b, CHR 0x27] @ '' encountered in format string''))"

fun named_format :: "(str \<times> str) list \<Rightarrow> str option \<Rightarrow> str \<Rightarrow> error + str" where
  "named_format kw None [] = Inr []"
| "named_format kw (Some n) [] =
     Inl (ValueError (lit (''expected '' @ [CHR 0x27] @ ''}'' @ [CHR 0x27] @ '' before end of string'')))"
| "named_format kw (Some n) (c # cs) =
     (if c = 125
      then (if n = []
            then Inl (IndexError (lit ''Replacement index 0 out of range for positional args tuple''))
            else case map_of kw n of
                   None \<Rightarrow> Inl (KeyError n)
                 | Some v \<Rightarrow> prepend v (named_format kw None cs))
      else named_format kw (Some (n @ [c])) cs)"
| "named_format kw None (c # cs) =
     (if c = 123
      then (case cs of
              [] \<Rightarrow> Inl (single_brace_error (CHR ''{''))
            | d # ds \<Rightarrow> if d = 123 then prepend [123] (named_format kw None ds)
                        else named_format kw (Some []) cs)
      else if c = 125
      then (case cs of
              [] \<Rightarrow> Inl (single_brace_error (CHR ''}''))
            | d # ds \<Rightarrow> if d = 125 then prepend [125] (named_format kw None ds)
                        else Inl (single_brace_error (CHR ''}'')))
      else prepend [c] (named_format kw None cs))"

definition ascii_lower :: "str \<Rightarrow> str" where
  "ascii_lower s = map (\<lambda>c. if 65 \<le> c \<and> c \<le> 90 then c + 32 else c) s"

definition plain_lib :: pylib where
  "plain_lib = \<lparr> str_format = (\<lambda>template kwargs. named_format kwargs None template),
                 str_lower = ascii_lower \<rparr>"

text \<open>
  A command sent in a channel of a server and one sent in a direct message; a recorder
  that answers and one that cannot be reached; the clock at second \<open>t\<close>.
\<close>

definition guild_ctx :: ctx where
  "guild_ctx = \<lparr> guild = Some (lit ''studio''), channel_name = lit ''general'',
                 author_display_name = lit ''ann'' \<rparr>"

definition dm_ctx :: ctx where
  "dm_ctx = \<lparr> guild = None, channel_name = lit ''dm'', author_display_name = lit ''ann'' \<rparr>"

definition obs_up :: obs_reply where
  "obs_up = \<lparr> connect_ok = True, request_ok = True \<rparr>"

definition obs_down :: obs_reply where
  "obs_down = \<lparr> connect_ok = False, request_ok = False \<rparr>"

definition env_at :: "obs_reply \<Rightarrow> int \<Rightarrow> cmd_env" where
  "env_at r t = \<lparr> obs = r, now = t * 1000000, now_stamp = lit ''2024-01-01_00-00-00'',
                  mp4_files = Inr [] \<rparr>"

text \<open>A session that is recording since second 0, as a start command leaves it.\<close>

definition recording_session :: recording_state where
  "recording_session =
     \<lparr> active = True, start_time = Some 0, duration_minutes = 0,
       recording_filename = Some (lit ''2024-01-01_00-00-00''), participants = [],
       youtube_upload_id = None, github_commit_url = None, transcript_path = None \<rparr>"

text \<open>
  Services with the video platform configured and nothing else; the recording the
  pipeline looks for; and worlds in which the transcript can or cannot be written.
\<close>

definition video_only :: services where
  "video_only =
     \<lparr> youtube = \<lparr> client_id = Some (lit ''id''), client_secret = Some (lit ''secret''),
                   api_key = Some (lit ''key'') \<rparr>,
       github = \<lparr> token = None, repo = None \<rparr>,
       cloud = \<lparr> s3_bucket = None, rclone_remote = None \<rparr>,
       transcripts_dir = lit ''/opt/virtualstudio/transcripts'' \<rparr>"

definition video_and_s3 :: services where
  "video_and_s3 = video_only\<lparr> cloud := \<lparr> s3_bucket = Some (lit ''bucket''), rclone_remote = None \<rparr> \<rparr>"

definition take_one :: path where
  "take_one =
     \<lparr> path_str = lit ''/opt/virtualstudio/recordings/2024-01-01_00-00-00.mp4'',
       path_name = lit ''2024-01-01_00-00-00.mp4'',
       path_stem = lit ''2024-01-01_00-00-00'' \<rparr>"

definition world :: "bool \<Rightarrow> pipeline_env" where
  "world written =
     \<lparr> glob_result = [take_one], transcript_written = written,
       transcript_read = Inr (lit ''Transcript''), now_description = lit ''2024-01-01 00:10:00'',
       transcript_commit = None, metadata_commit = None,
       now_upload_id = lit ''20240101_001000'', s3_uploaded = True,
       rclone_returncode = None \<rparr>"

text \<open>
  Two platforms with \<open>\n\<close> as line separator: one whose encoding is UTF-8, which
  encodes every character but the surrogates, and one whose encoding is ASCII.
\<close>

definition utf8_posix :: text_io where
  "utf8_posix =
     \<lparr> encode_error =
         (\<lambda>text. if list_ex (\<lambda>c. 0xD800 \<le> c \<and> c \<le> 0xDFFF) text
                  then Some (ValueError (lit ''surrogates not allowed'')) else None),
       linesep = [10] \<rparr>"

definition ascii_posix :: text_io where
  "ascii_posix =
     \<lparr> encode_error =
         (\<lambda>text. if list_ex (\<lambda>c. 128 \<le> c) text
                  then Some (ValueError (lit ''ordinal not in range(128)'')) else None),
       linesep = [10] \<rparr>"

text \<open>
  What a stretch of the pipeline may store in a post-processing field: \<open>None\<close> leaves the
  field as it is, \<open>Some v\<close> stores \<open>v\<close>.
\<close>

definition written :: "str option \<Rightarrow> str option \<Rightarrow> str option" where
  "written w old = (case w of None \<Rightarrow> old | Some v \<Rightarrow> Some v)"

section \<open>The start and stop transitions\<close>

text \<open>
  Claim C3.  A precondition violation is answered with a warning and nothing else: a start
  while a session is active returns the state as it was, its whole trace is the one message
  "Recording already in progress!", and the recorder's start operation is not called; a
  stop while no session is active returns the state as it was, its whole trace is the one
  message "No recording in progress!", and the recorder's stop operation is not called.
\<close>

theorem precondition_violations_rejected:
  assumes "active st" and "\<not> active st'"
  shows "handle_record_start lib p c minutes env st = (st, [Send AlreadyRecording])
       \<and> StartRecording \<notin> set (snd (handle_record_start lib p c minutes env st))
       \<and> handle_record_stop p env' st' = (st', [Send NoRecording])
       \<and> StopRecording \<notin> set (snd (handle_record_stop p env' st'))"
  using assms by (simp add: handle_record_start_def handle_record_stop_def)

theorem precondition_violations_rejected_witness:
  "active recording_session \<and> \<not> active recording_state_init
   \<and> handle_record_start plain_lib Map.empty guild_ctx 5 (env_at obs_up 60) recording_session
       = (recording_session, [Send AlreadyRecording])
   \<and> handle_record_stop Map.empty (env_at obs_up 60) recording_state_init
       = (recording_state_init, [Send NoRecording])"
proof -
  have a: "active recording_session" by (simp add: recording_session_def)
  have b: "\<not> active recording_state_init" by (simp add: recording_state_init_def)
  show ?thesis
    using a b precondition_violations_rejected
      [OF a b, where lib = plain_lib and p = Map.empty and c = guild_ctx and minutes = 5
         and env = "env_at obs_up 60" and env' = "env_at obs_up 60"]
    by simp
qed

text \<open>
  Claim C5.  When no session is active and the recorder's start operation reports failure,
  the start handler sends "Failed to start OBS recording" and returns the session state
  as it was, every field of it.
\<close>

theorem start_failure_leaves_state:
  assumes "\<not> active st" and "\<not> start_recording (obs env)"
  shows "handle_record_start lib p c minutes env st = (st, [StartRecording, Send ObsStartFailed])"
  using assms by (simp add: handle_record_start_def)

theorem start_failure_leaves_state_witness:
  "\<not> active recording_state_init \<and> \<not> start_recording (obs (env_at obs_down 0))
   \<and> handle_record_start plain_lib Map.empty guild_ctx 5 (env_at obs_down 0) recording_state_init
       = (recording_state_init, [StartRecording, Send ObsStartFailed])"
proof -
  have a: "\<not> active recording_state_init" by (simp add: recording_state_init_def)
  have b: "\<not> start_recording (obs (env_at obs_down 0))"
    by (simp add: start_recording_def get_connection_def env_at_def obs_down_def)
  show ?thesis
    using a b start_failure_leaves_state
      [OF a b, where lib = plain_lib and p = Map.empty and c = guild_ctx and minutes = 5]
    by simp
qed

text \<open>
  Claim C9.  A \<open>/record\<close> command that arrives outside a server (\<open>ctx.guild\<close> is
  \<open>None\<close>) does nothing, whatever the subcommand and the minutes: the trace is empty (no
  reply, no handler, no collaborator call) and the session state is returned as it was.
\<close>

theorem no_guild_ignored:
  assumes "guild c = None"
  shows "record_command lib p c subcommand minutes env st = (st, [])"
  using assms by (simp add: record_command_def)

theorem no_guild_ignored_witness:
  "guild dm_ctx = None
   \<and> record_command plain_lib Map.empty dm_ctx (Some (lit ''start'')) 5 (env_at obs_up 0)
        recording_state_init = (recording_state_init, [])"
proof -
  have a: "guild dm_ctx = None" by (simp add: dm_ctx_def)
  show ?thesis
    using a no_guild_ignored
      [OF a, where lib = plain_lib and p = Map.empty and subcommand = "Some (lit ''start'')"
         and minutes = 5 and env = "env_at obs_up 0" and st = recording_state_init]
    by simp
qed






section \<open>The post-processing pipeline\<close>

text \<open>
  Neither stretch of the pipeline touches the fields of the session proper, and the trace
  of each is the same whatever the session state it runs on.
\<close>

lemma pipeline_transcript_frame:
  "active (fst (pipeline_transcript lib p sv c filename rf env st)) = active st
   \<and> start_time (fst (pipeline_transcript lib p sv c filename rf env st)) = start_time st
   \<and> duration_minutes (fst (pipeline_transcript lib p sv c filename rf env st)) = duration_minutes st
   \<and> recording_filename (fst (pipeline_transcript lib p sv c filename rf env st)) = recording_filename st
   \<and> participants (fst (pipeline_transcript lib p sv c filename rf env st)) = participants st
   \<and> youtube_upload_id (fst (pipeline_transcript lib p sv c filename rf env st)) = youtube_upload_id st"
  by (simp add: pipeline_transcript_def Let_def split: sum.splits option.splits)

lemma pipeline_youtube_frame:
  "active (fst (pipeline_youtube lib p sv c filename rf env st)) = active st
   \<and> start_time (fst (pipeline_youtube lib p sv c filename rf env st)) = start_time st
   \<and> duration_minutes (fst (pipeline_youtube lib p sv c filename rf env st)) = duration_minutes st
   \<and> recording_filename (fst (pipeline_youtube lib p sv c filename rf env st)) = recording_filename st
   \<and> participants (fst (pipeline_youtube lib p sv c filename rf env st)) = participants st
   \<and> github_commit_url (fst (pipeline_youtube lib p sv c filename rf env st)) = github_commit_url st
   \<and> transcript_path (fst (pipeline_youtube lib p sv c filename rf env st)) = transcript_path st"
  by (simp add: pipeline_youtube_def Let_def split: sum.splits option.splits)

lemma pipeline_transcript_blind:
  "snd (pipeline_transcript lib p sv c filename rf env st)
     = snd (pipeline_transcript lib p sv c filename rf env st')"
  by (simp add: pipeline_transcript_def Let_def split: sum.splits option.splits)

lemma pipeline_youtube_blind:
  "snd (pipeline_youtube lib p sv c filename rf env st)
     = snd (pipeline_youtube lib p sv c filename rf env st')"
  by (simp add: pipeline_youtube_def Let_def split: sum.splits option.splits)

lemma pipeline_state:
  "fst (process_recording_pipeline lib p sv filename c env st) =
     (case glob_result env of
        [] \<Rightarrow> st
      | rf # others \<Rightarrow>
          if snd (snd (pipeline_transcript lib p sv c filename rf env st))
          then fst (pipeline_youtube lib p sv c filename rf env
                      (fst (pipeline_transcript lib p sv c filename rf env st)))
          else fst (pipeline_transcript lib p sv c filename rf env st))"
  by (simp add: process_recording_pipeline_def Let_def split: list.splits prod.splits)


text \<open>The trace of the pipeline, from the traces of its stretches.\<close>

lemma pipeline_trace:
  "snd (process_recording_pipeline lib p sv filename c env st) =
     (case glob_result env of
        [] \<Rightarrow> [Send ProcessingStarted, Send RecordingFileNotFound]
      | rf # others \<Rightarrow>
          Send ProcessingStarted # fst (snd (pipeline_transcript lib p sv c filename rf env st))
            @ (if snd (snd (pipeline_transcript lib p sv c filename rf env st))
               then fst (snd (pipeline_youtube lib p sv c filename rf env
                                (fst (pipeline_transcript lib p sv c filename rf env st))))
                      @ (if snd (snd (pipeline_youtube lib p sv c filename rf env
                                        (fst (pipeline_transcript lib p sv c filename rf env st))))
                         then pipeline_cloud lib p sv rf env else [])
               else []))"
  by (simp add: process_recording_pipeline_def Let_def split: list.splits prod.splits)

text \<open>
  Each stretch, and the pipeline as a whole, is a fixed set of stores into the
  post-processing fields together with a fixed trace: both are decided by the arguments
  and by what the outside world answers, not by the session state.
\<close>

lemma pipeline_transcript_writes:
  "\<exists>wt wg evs go. \<forall>st.
     pipeline_transcript lib p sv c filename rf env st =
       (st\<lparr> transcript_path := written wt (transcript_path st),
            github_commit_url := written wg (github_commit_url st) \<rparr>, evs, go)"
proof (cases "truthy (generate_transcript sv rf env)")
  case False
  then have "\<forall>st. pipeline_transcript lib p sv c filename rf env st =
       (st\<lparr> transcript_path := written None (transcript_path st),
            github_commit_url := written None (github_commit_url st) \<rparr>,
        [GenerateTranscript rf], True)"
    by (simp add: pipeline_transcript_def written_def)
  then show ?thesis by blast
next
  case True
  then obtain tp where tp: "generate_transcript sv rf env = Some tp"
    by (auto simp: truthy_def split: option.splits)
  show ?thesis
  proof (cases "transcript_read env")
    case (Inl e)
    with True tp have "\<forall>st. pipeline_transcript lib p sv c filename rf env st =
       (st\<lparr> transcript_path := written (Some tp) (transcript_path st),
            github_commit_url := written None (github_commit_url st) \<rparr>,
        [GenerateTranscript rf, Send (ProcessingFailed e)], False)"
      by (simp add: pipeline_transcript_def written_def)
    then show ?thesis by blast
  next
    case (Inr content)
    show ?thesis
    proof (cases "truthy (upload_transcript (github sv) env)")
      case no: False
      with True tp Inr have "\<exists>evs. \<forall>st. pipeline_transcript lib p sv c filename rf env st =
       (st\<lparr> transcript_path := written (Some tp) (transcript_path st),
            github_commit_url := written None (github_commit_url st) \<rparr>, evs, True)"
        by (auto simp add: pipeline_transcript_def written_def truthy_def Let_def
              split: option.splits)
      then show ?thesis by blast
    next
      case yes: True
      then obtain url where url: "upload_transcript (github sv) env = Some url" "url \<noteq> []"
        by (auto simp: truthy_def split: option.splits)
      with True tp Inr have "\<exists>evs go. \<forall>st. pipeline_transcript lib p sv c filename rf env st =
       (st\<lparr> transcript_path := written (Some tp) (transcript_path st),
            github_commit_url := written (Some url) (github_commit_url st) \<rparr>, evs, go)"
        by (cases "str_format lib
                     (prompts_get p (lit ''github_commit'') (lit ''Files committed to GitHub''))
                     [(lit ''commit_url'', url)]")
           (auto simp add: pipeline_transcript_def written_def Let_def)
      then show ?thesis by blast
    qed
  qed
qed

lemma pipeline_youtube_writes:
  "\<exists>wy evs go. \<forall>st.
     pipeline_youtube lib p sv c filename rf env st =
       (st\<lparr> youtube_upload_id := written wy (youtube_upload_id st) \<rparr>, evs, go)"
proof (cases "truthy (upload_video (youtube sv) env)")
  case False
  then have "\<exists>evs. \<forall>st. pipeline_youtube lib p sv c filename rf env st =
       (st\<lparr> youtube_upload_id := written None (youtube_upload_id st) \<rparr>, evs, True)"
    by (auto simp add: pipeline_youtube_def truthy_def written_def Let_def split: option.splits)
  then show ?thesis by blast
next
  case True
  then obtain yid where "upload_video (youtube sv) env = Some yid" "yid \<noteq> []"
    by (auto simp: truthy_def split: option.splits)
  then have "\<exists>evs go. \<forall>st. pipeline_youtube lib p sv c filename rf env st =
       (st\<lparr> youtube_upload_id := written (Some yid) (youtube_upload_id st) \<rparr>, evs, go)"
    by (cases "str_format lib (prompts_get p (lit ''upload_success'') (lit ''Video uploaded''))
                 [(lit ''video_url'', lit ''https://youtube.com/watch?v='' @ yid)]")
       (auto simp add: pipeline_youtube_def written_def Let_def)
  then show ?thesis by blast
qed

lemma pipeline_writes:
  "\<exists>wt wg wy evs. \<forall>st.
     process_recording_pipeline lib p sv filename c env st =
       (st\<lparr> transcript_path := written wt (transcript_path st),
            github_commit_url := written wg (github_commit_url st),
            youtube_upload_id := written wy (youtube_upload_id st) \<rparr>, evs)"
proof (cases "glob_result env")
  case Nil
  then have "\<forall>st. process_recording_pipeline lib p sv filename c env st =
       (st\<lparr> transcript_path := written None (transcript_path st),
            github_commit_url := written None (github_commit_url st),
            youtube_upload_id := written None (youtube_upload_id st) \<rparr>,
        [Send ProcessingStarted, Send RecordingFileNotFound])"
    by (simp add: process_recording_pipeline_def written_def)
  then show ?thesis by blast
next
  case (Cons rf others)
  obtain wt wg evs1 go1 where t: "\<And>st. pipeline_transcript lib p sv c filename rf env st =
       (st\<lparr> transcript_path := written wt (transcript_path st),
            github_commit_url := written wg (github_commit_url st) \<rparr>, evs1, go1)"
    using pipeline_transcript_writes [of lib p sv c filename rf env] by blast
  obtain wy evs2 go2 where y: "\<And>st. pipeline_youtube lib p sv c filename rf env st =
       (st\<lparr> youtube_upload_id := written wy (youtube_upload_id st) \<rparr>, evs2, go2)"
    using pipeline_youtube_writes [of lib p sv c filename rf env] by blast
  show ?thesis
  proof (cases go1)
    case False
    with Cons t have "\<exists>evs. \<forall>st. process_recording_pipeline lib p sv filename c env st =
       (st\<lparr> transcript_path := written wt (transcript_path st),
            github_commit_url := written wg (github_commit_url st),
            youtube_upload_id := written None (youtube_upload_id st) \<rparr>, evs)"
      by (simp add: process_recording_pipeline_def written_def)
    then show ?thesis by blast
  next
    case True
    with Cons t y have "\<exists>evs. \<forall>st. process_recording_pipeline lib p sv filename c env st =
       (st\<lparr> transcript_path := written wt (transcript_path st),
            github_commit_url := written wg (github_commit_url st),
            youtube_upload_id := written wy (youtube_upload_id st) \<rparr>, evs)"
      by (cases go2; cases wy) (simp_all add: process_recording_pipeline_def written_def)
    then show ?thesis by blast
  qed
qed


text \<open>
  What each stretch stores, and which collaborator calls stand in its trace.
\<close>

lemma pipeline_transcript_stores:
  "fst (pipeline_transcript lib p sv c filename rf env st) =
     st\<lparr> transcript_path :=
            (if truthy (generate_transcript sv rf env) then generate_transcript sv rf env
             else transcript_path st),
          github_commit_url :=
            (if truthy (generate_transcript sv rf env) \<and> \<not> isl (transcript_read env)
                \<and> truthy (upload_transcript (github sv) env)
             then upload_transcript (github sv) env
             else github_commit_url st) \<rparr>"
  by (cases "transcript_read env"; cases "upload_transcript (github sv) env")
     (auto simp add: pipeline_transcript_def truthy_def Let_def split: sum.splits)

lemma pipeline_transcript_calls:
  "(\<exists>content md. UploadTranscript content md
        \<in> set (fst (snd (pipeline_transcript lib p sv c filename rf env st))))
     = (truthy (generate_transcript sv rf env) \<and> \<not> isl (transcript_read env))"
  by (cases "transcript_read env"; cases "upload_transcript (github sv) env")
     (auto simp add: pipeline_transcript_def truthy_def Let_def split: sum.splits)

lemma pipeline_transcript_no_video:
  "UploadVideo a t d \<notin> set (fst (snd (pipeline_transcript lib p sv c filename rf env st)))"
  by (simp add: pipeline_transcript_def Let_def split: sum.splits option.splits)

lemma pipeline_youtube_stores:
  "fst (pipeline_youtube lib p sv c filename rf env st) =
     st\<lparr> youtube_upload_id :=
            (if truthy (upload_video (youtube sv) env) then upload_video (youtube sv) env
             else youtube_upload_id st) \<rparr>"
  by (cases "upload_video (youtube sv) env")
     (auto simp add: pipeline_youtube_def truthy_def Let_def split: sum.splits)

lemma pipeline_youtube_calls:
  "(\<exists>t d. UploadVideo rf t d \<in> set (fst (snd (pipeline_youtube lib p sv c filename rf env st))))"
  by (auto simp add: pipeline_youtube_def Let_def split: sum.splits option.splits)

lemma pipeline_youtube_no_transcript:
  "UploadTranscript content md \<notin> set (fst (snd (pipeline_youtube lib p sv c filename rf env st)))"
  by (simp add: pipeline_youtube_def Let_def split: sum.splits option.splits)

lemma pipeline_cloud_no_calls:
  "UploadTranscript content md \<notin> set (pipeline_cloud lib p sv rf env)
   \<and> UploadVideo a t d \<notin> set (pipeline_cloud lib p sv rf env)"
  by (simp add: pipeline_cloud_def Let_def split: sum.splits)

lemma pipeline_reaches_transcript_upload:
  assumes "glob_result env = rf # others"
  shows "(\<exists>content md. UploadTranscript content md
            \<in> set (snd (process_recording_pipeline lib p sv filename c env st)))
         = (truthy (generate_transcript sv rf env) \<and> \<not> isl (transcript_read env))"
  using assms pipeline_transcript_calls [of lib p sv c filename rf env st]
  by (auto simp add: pipeline_trace pipeline_youtube_no_transcript pipeline_cloud_no_calls)

lemma pipeline_reaches_video_upload:
  assumes "glob_result env = rf # others"
  shows "(\<exists>t d. UploadVideo rf t d
            \<in> set (snd (process_recording_pipeline lib p sv filename c env st)))
         = snd (snd (pipeline_transcript lib p sv c filename rf env st))"
  using assms pipeline_youtube_calls
          [of rf lib p sv c filename env "fst (pipeline_transcript lib p sv c filename rf env st)"]
  by (auto simp add: pipeline_trace pipeline_transcript_no_video pipeline_cloud_no_calls)

lemma pipeline_stores:
  assumes "glob_result env = rf # others"
  shows "fst (process_recording_pipeline lib p sv filename c env st) =
     st\<lparr> transcript_path :=
            (if truthy (generate_transcript sv rf env) then generate_transcript sv rf env
             else transcript_path st),
          github_commit_url :=
            (if (\<exists>content md. UploadTranscript content md
                    \<in> set (snd (process_recording_pipeline lib p sv filename c env st)))
                \<and> truthy (upload_transcript (github sv) env)
             then upload_transcript (github sv) env
             else github_commit_url st),
          youtube_upload_id :=
            (if (\<exists>t d. UploadVideo rf t d
                    \<in> set (snd (process_recording_pipeline lib p sv filename c env st)))
                \<and> truthy (upload_video (youtube sv) env)
             then upload_video (youtube sv) env
             else youtube_upload_id st) \<rparr>"
proof (cases "snd (snd (pipeline_transcript lib p sv c filename rf env st))")
  case True
  then show ?thesis
    using assms
    by (simp add: pipeline_reaches_transcript_upload [OF assms]
          pipeline_reaches_video_upload [OF assms] pipeline_state
          pipeline_youtube_stores pipeline_transcript_stores)
next
  case False
  then show ?thesis
    using assms
    by (simp add: pipeline_reaches_transcript_upload [OF assms]
          pipeline_reaches_video_upload [OF assms] pipeline_state
          pipeline_transcript_stores)
qed

lemma pipeline_blind:
  "snd (process_recording_pipeline lib p sv filename c env st)
     = snd (process_recording_pipeline lib p sv filename c env st')"
proof -
  obtain wt wg wy evs where
    "\<forall>st. process_recording_pipeline lib p sv filename c env st =
        (st\<lparr> transcript_path := written wt (transcript_path st),
             github_commit_url := written wg (github_commit_url st),
             youtube_upload_id := written wy (youtube_upload_id st) \<rparr>, evs)"
    using pipeline_writes [of lib p sv filename c env] by blast
  then show ?thesis by simp
qed

lemma pipeline_not_found:
  "glob_result env = [] \<Longrightarrow>
     process_recording_pipeline lib p sv filename c env st
       = (st, [Send ProcessingStarted, Send RecordingFileNotFound])"
  by (simp add: process_recording_pipeline_def)


text \<open>
  Claim C1, as amended.  The pipeline works on the file name and the context it was handed
  and never reads the session state: its trace is the same on every session state, and so
  is what it stores.  It does write to the session state, but only to the three
  post-processing fields, and only the results of its own steps: \<open>transcript_path\<close>
  becomes the result of \<open>generate_transcript\<close> when that is a non-empty path,
  \<open>github_commit_url\<close> becomes the result of \<open>upload_transcript\<close> when the run reached
  that call and it gave a non-empty address, and \<open>youtube_upload_id\<close> becomes the result
  of \<open>upload_video\<close> when the run reached that call and it gave a non-empty identifier;
  otherwise each is left as it was, and a run that finds no recording stores nothing.
  \<open>active\<close>, \<open>start_time\<close>, \<open>duration_minutes\<close>, \<open>recording_filename\<close> and
  \<open>participants\<close> are the same before and after the pipeline and before and after each
  of its stretches.
\<close>

theorem pipeline_writes_only_results:
  "(case glob_result env of
      [] \<Rightarrow>
        process_recording_pipeline lib p sv filename c env st
          = (st, [Send ProcessingStarted, Send RecordingFileNotFound])
    | rf # others \<Rightarrow>
        fst (process_recording_pipeline lib p sv filename c env st) =
          st\<lparr> transcript_path :=
                 (if truthy (generate_transcript sv rf env) then generate_transcript sv rf env
                  else transcript_path st),
               github_commit_url :=
                 (if (\<exists>content md. UploadTranscript content md
                         \<in> set (snd (process_recording_pipeline lib p sv filename c env st)))
                     \<and> truthy (upload_transcript (github sv) env)
                  then upload_transcript (github sv) env
                  else github_commit_url st),
               youtube_upload_id :=
                 (if (\<exists>t d. UploadVideo rf t d
                         \<in> set (snd (process_recording_pipeline lib p sv filename c env st)))
                     \<and> truthy (upload_video (youtube sv) env)
                  then upload_video (youtube sv) env
                  else youtube_upload_id st) \<rparr>)
   \<and> snd (process_recording_pipeline lib p sv filename c env st)
       = snd (process_recording_pipeline lib p sv filename c env st')
   \<and> active (fst (process_recording_pipeline lib p sv filename c env st)) = active st
   \<and> start_time (fst (process_recording_pipeline lib p sv filename c env st)) = start_time st
   \<and> duration_minutes (fst (process_recording_pipeline lib p sv filename c env st))
       = duration_minutes st
   \<and> recording_filename (fst (process_recording_pipeline lib p sv filename c env st))
       = recording_filename st
   \<and> participants (fst (process_recording_pipeline lib p sv filename c env st))
       = participants st
   \<and> fst (pipeline_transcript lib p sv c filename file1 env st) =
        st\<lparr> transcript_path :=
               (if truthy (generate_transcript sv file1 env) then generate_transcript sv file1 env
                else transcript_path st),
             github_commit_url :=
               (if truthy (generate_transcript sv file1 env) \<and> \<not> isl (transcript_read env)
                   \<and> truthy (upload_transcript (github sv) env)
                then upload_transcript (github sv) env
                else github_commit_url st) \<rparr>
   \<and> snd (pipeline_transcript lib p sv c filename file1 env st)
       = snd (pipeline_transcript lib p sv c filename file1 env st')
   \<and> fst (pipeline_youtube lib p sv c filename file1 env st) =
        st\<lparr> youtube_upload_id :=
               (if truthy (upload_video (youtube sv) env) then upload_video (youtube sv) env
                else youtube_upload_id st) \<rparr>
   \<and> snd (pipeline_youtube lib p sv c filename file1 env st)
       = snd (pipeline_youtube lib p sv c filename file1 env st')"
proof -
  have frame:
    "active (fst (process_recording_pipeline lib p sv filename c env st)) = active st
     \<and> start_time (fst (process_recording_pipeline lib p sv filename c env st)) = start_time st
     \<and> duration_minutes (fst (process_recording_pipeline lib p sv filename c env st))
         = duration_minutes st
     \<and> recording_filename (fst (process_recording_pipeline lib p sv filename c env st))
         = recording_filename st
     \<and> participants (fst (process_recording_pipeline lib p sv filename c env st))
         = participants st"
    by (simp add: pipeline_state pipeline_transcript_frame pipeline_youtube_frame
          split: list.splits)
  have stores:
    "case glob_result env of
      [] \<Rightarrow>
        process_recording_pipeline lib p sv filename c env st
          = (st, [Send ProcessingStarted, Send RecordingFileNotFound])
    | rf # others \<Rightarrow>
        fst (process_recording_pipeline lib p sv filename c env st) =
          st\<lparr> transcript_path :=
                 (if truthy (generate_transcript sv rf env) then generate_transcript sv rf env
                  else transcript_path st),
               github_commit_url :=
                 (if (\<exists>content md. UploadTranscript content md
                         \<in> set (snd (process_recording_pipeline lib p sv filename c env st)))
                     \<and> truthy (upload_transcript (github sv) env)
                  then upload_transcript (github sv) env
                  else github_commit_url st),
               youtube_upload_id :=
                 (if (\<exists>t d. UploadVideo rf t d
                         \<in> set (snd (process_recording_pipeline lib p sv filename c env st)))
                     \<and> truthy (upload_video (youtube sv) env)
                  then upload_video (youtube sv) env
                  else youtube_upload_id st) \<rparr>"
  proof (cases "glob_result env")
    case Nil
    then show ?thesis by (simp add: pipeline_not_found)
  next
    case (Cons rf others)
    then show ?thesis using pipeline_stores [OF Cons] by simp
  qed
  show ?thesis
    using frame stores
      pipeline_blind [of lib p sv filename c env st st']
      pipeline_transcript_stores [of lib p sv c filename file1 env st]
      pipeline_transcript_blind [of lib p sv c filename file1 env st st']
      pipeline_youtube_stores [of lib p sv c filename file1 env st]
      pipeline_youtube_blind [of lib p sv c filename file1 env st st']
    by blast
qed

theorem pipeline_writes_only_results_witness:
  "glob_result (world True) = [take_one]
   \<and> fst (process_recording_pipeline plain_lib Map.empty video_only
             (Some (lit ''2024-01-01_00-00-00'')) guild_ctx (world True) recording_session)
       = recording_session
           \<lparr> transcript_path := Some (lit ''/opt/virtualstudio/transcripts/2024-01-01_00-00-00.txt''),
             youtube_upload_id := Some (lit ''upload_20240101_001000'') \<rparr>
   \<and> active (fst (process_recording_pipeline plain_lib Map.empty video_only
             (Some (lit ''2024-01-01_00-00-00'')) guild_ctx (world True) recording_session))"
proof -
  have g: "glob_result (world True) = [take_one]" by (simp add: world_def)
  have t: "generate_transcript video_only take_one (world True)
             = Some (lit ''/opt/virtualstudio/transcripts/2024-01-01_00-00-00.txt'')"
    by (simp add: generate_transcript_def world_def video_only_def take_one_def lit_def)
  have u: "upload_transcript (github video_only) (world True) = None"
    by (simp add: upload_transcript_def commit_file_def py_or_def truthy_def world_def
          video_only_def)
  have v: "upload_video (youtube video_only) (world True) = Some (lit ''upload_20240101_001000'')"
    by (simp add: upload_video_def truthy_def world_def video_only_def lit_def)
  have r: "\<exists>t d. UploadVideo take_one t d
             \<in> set (snd (process_recording_pipeline plain_lib Map.empty video_only
                  (Some (lit ''2024-01-01_00-00-00'')) guild_ctx (world True) recording_session))"
    by (auto simp add: process_recording_pipeline_def pipeline_transcript_def pipeline_youtube_def
          generate_transcript_def upload_transcript_def commit_file_def upload_video_def
          py_or_def truthy_def world_def video_only_def take_one_def plain_lib_def
          prompts_get_def lit_def prepend_def Let_def)
  have a: "active recording_session" by (simp add: recording_session_def)
  show ?thesis
    using g t u v r a pipeline_writes_only_results
      [where lib = plain_lib and p = Map.empty and sv = video_only
         and filename = "Some (lit ''2024-01-01_00-00-00'')" and c = guild_ctx
         and env = "world True" and st = recording_session]
    by (simp add: truthy_def lit_def)
qed

text \<open>
  The claim as first stated (no session field changes across a pipeline step) fails: on
  the initial state, with the video platform configured and a transcript that can be
  written, the pipeline stores the transcript path and the upload identifier.
\<close>

theorem pipeline_changes_state_counterexample:
  "transcript_path recording_state_init = None
   \<and> youtube_upload_id recording_state_init = None
   \<and> transcript_path (fst (process_recording_pipeline plain_lib Map.empty video_only
        (Some (lit ''2024-01-01_00-00-00'')) guild_ctx (world True) recording_state_init))
       = Some (lit ''/opt/virtualstudio/transcripts/2024-01-01_00-00-00.txt'')
   \<and> youtube_upload_id (fst (process_recording_pipeline plain_lib Map.empty video_only
        (Some (lit ''2024-01-01_00-00-00'')) guild_ctx (world True) recording_state_init))
       = Some (lit ''upload_20240101_001000'')"
  by (simp add: process_recording_pipeline_def pipeline_transcript_def pipeline_youtube_def
        generate_transcript_def upload_transcript_def commit_file_def upload_video_def
        py_or_def truthy_def world_def video_only_def take_one_def recording_state_init_def
        plain_lib_def prompts_get_def lit_def prepend_def Let_def)

lemma pipeline_transcript_no_cloud_notice:
  "Send (CloudUploaded m) \<notin> set (fst (snd (pipeline_transcript lib p sv c filename rf env st)))"
  by (simp add: pipeline_transcript_def Let_def split: sum.splits option.splits)

lemma pipeline_youtube_no_cloud_notice:
  "Send (CloudUploaded m) \<notin> set (fst (snd (pipeline_youtube lib p sv c filename rf env st)))"
  by (simp add: pipeline_youtube_def Let_def split: sum.splits option.splits)

lemma pipeline_cloud_unconfigured:
  assumes "\<not> truthy (s3_bucket (cloud sv))" and "\<not> truthy (rclone_remote (cloud sv))"
  shows "pipeline_cloud lib p sv rf env = [UploadToS3 rf, UploadToRclone rf, Send ProcessingComplete]"
  using assms by (simp add: pipeline_cloud_def upload_to_s3_def upload_to_rclone_def)

text \<open>
  Claim C8.  With no S3 bucket and no rclone remote configured (each unset or empty),
  \<open>upload_to_s3\<close> and \<open>upload_to_rclone\<close> each return \<open>False\<close>; they return it as a
  value, their result type holding no exception.  The pipeline then sends no cloud-upload
  notification, whatever else happens in the run.
\<close>

theorem no_cloud_configuration:
  assumes "\<not> truthy (s3_bucket (cloud sv))" and "\<not> truthy (rclone_remote (cloud sv))"
  shows "upload_to_s3 (cloud sv) env = False
       \<and> upload_to_rclone (cloud sv) env = False
       \<and> (\<forall>m. Send (CloudUploaded m)
                \<notin> set (snd (process_recording_pipeline lib p sv filename c env st)))"
proof (intro conjI allI)
  show "upload_to_s3 (cloud sv) env = False"
    using assms(1) by (simp add: upload_to_s3_def)
  show "upload_to_rclone (cloud sv) env = False"
    using assms(2) by (simp add: upload_to_rclone_def)
  fix m
  show "Send (CloudUploaded m) \<notin> set (snd (process_recording_pipeline lib p sv filename c env st))"
    by (simp add: pipeline_trace pipeline_transcript_no_cloud_notice
          pipeline_youtube_no_cloud_notice pipeline_cloud_unconfigured [OF assms]
          split: list.splits)
qed

theorem no_cloud_configuration_witness:
  "\<not> truthy (s3_bucket (cloud video_only)) \<and> \<not> truthy (rclone_remote (cloud video_only))
   \<and> upload_to_s3 (cloud video_only) (world True) = False
   \<and> upload_to_rclone (cloud video_only) (world True) = False
   \<and> Send (CloudUploaded (lit ''Uploaded to cloud storage''))
        \<notin> set (snd (process_recording_pipeline plain_lib Map.empty video_only
                      (Some (lit ''2024-01-01_00-00-00'')) guild_ctx (world True)
                      recording_state_init))"
proof -
  have a: "\<not> truthy (s3_bucket (cloud video_only))"
    by (simp add: video_only_def truthy_def)
  have b: "\<not> truthy (rclone_remote (cloud video_only))"
    by (simp add: video_only_def truthy_def)
  show ?thesis
    using a b no_cloud_configuration
      [OF a b, where env = "world True" and lib = plain_lib and p = Map.empty
         and filename = "Some (lit ''2024-01-01_00-00-00'')" and c = guild_ctx
         and st = recording_state_init]
    by blast
qed


text \<open>A run whose transcript step gives nothing and whose upload gives an identifier.\<close>

lemma upload_video_nonempty:
  "upload_video yt env = Some yid \<Longrightarrow> yid \<noteq> []"
  by (auto simp: upload_video_def lit_def split: if_splits)

lemma pipeline_transcript_none:
  "generate_transcript sv rf env = None \<Longrightarrow>
     pipeline_transcript lib p sv c filename rf env st = (st, [GenerateTranscript rf], True)"
  by (simp add: pipeline_transcript_def truthy_def)

lemma pipeline_youtube_some:
  assumes "upload_video (youtube sv) env = Some yid"
  shows "pipeline_youtube lib p sv c filename rf env st =
     (case str_format lib (prompts_get p (lit ''upload_success'') (lit ''Video uploaded''))
             [(lit ''video_url'', lit ''https://youtube.com/watch?v='' @ yid)] of
        Inl e \<Rightarrow>
          (st\<lparr> youtube_upload_id := Some yid \<rparr>,
           [UploadVideo rf (lit ''Recording '' @ fstr_opt filename)
              (lit ''Automated recording from Discord channel '' @ channel_name c),
            Send (ProcessingFailed e)], False)
      | Inr upload_msg \<Rightarrow>
          (st\<lparr> youtube_upload_id := Some yid \<rparr>,
           [UploadVideo rf (lit ''Recording '' @ fstr_opt filename)
              (lit ''Automated recording from Discord channel '' @ channel_name c),
            Send (VideoUploaded upload_msg)], True))"
  using assms upload_video_nonempty [OF assms]
  by (simp add: pipeline_youtube_def Let_def split: sum.splits)

lemma pipeline_cloud_complete:
  "(Send ProcessingComplete \<in> set (pipeline_cloud lib p sv rf env)) =
     (upload_to_s3 (cloud sv) env \<or> upload_to_rclone (cloud sv) env \<longrightarrow>
        (\<exists>cm. str_format lib (prompts_get p (lit ''cloud_upload'') (lit ''Uploaded to cloud storage''))
                 [(lit ''file_path'', path_name rf)] = Inr cm))"
  by (auto simp add: pipeline_cloud_def Let_def split: sum.splits)

text \<open>
  Claim C6, as amended.  In a pipeline run that finds the recording, whose transcript
  generation returns none and whose video upload returns an identifier, the identifier is
  stored in \<open>youtube_upload_id\<close> in every case.  The final "Processing complete!" message
  is sent exactly when the notifications of the steps in between can be built: the
  \<open>upload_success\<close> template renders and, if an upload to cloud storage succeeded, the
  \<open>cloud_upload\<close> template renders too.  (A template that raises in \<open>format\<close> takes the
  run to the \<open>except\<close> at the bottom of the pipeline, which ends it.)
\<close>

theorem upload_survives_transcript_failure:
  assumes "glob_result env = rf # others"
      and "generate_transcript sv rf env = None"
      and "upload_video (youtube sv) env = Some yid"
  shows "youtube_upload_id (fst (process_recording_pipeline lib p sv filename c env st)) = Some yid
       \<and> (Send ProcessingComplete \<in> set (snd (process_recording_pipeline lib p sv filename c env st)))
          = ((\<exists>um. str_format lib (prompts_get p (lit ''upload_success'') (lit ''Video uploaded''))
                      [(lit ''video_url'', lit ''https://youtube.com/watch?v='' @ yid)] = Inr um)
             \<and> (upload_to_s3 (cloud sv) env \<or> upload_to_rclone (cloud sv) env \<longrightarrow>
                  (\<exists>cm. str_format lib
                           (prompts_get p (lit ''cloud_upload'') (lit ''Uploaded to cloud storage''))
                           [(lit ''file_path'', path_name rf)] = Inr cm)))"
proof (cases "str_format lib (prompts_get p (lit ''upload_success'') (lit ''Video uploaded''))
                [(lit ''video_url'', lit ''https://youtube.com/watch?v='' @ yid)]")
  case (Inl e)
  then show ?thesis
    using assms
    by (simp add: pipeline_state pipeline_trace pipeline_transcript_none
          pipeline_youtube_some [OF assms(3)])
next
  case (Inr um)
  then show ?thesis
    using assms
    by (simp add: pipeline_state pipeline_trace pipeline_transcript_none
          pipeline_youtube_some [OF assms(3)] pipeline_cloud_complete)
qed

theorem upload_survives_transcript_failure_witness:
  "glob_result (world False) = [take_one]
   \<and> generate_transcript video_only take_one (world False) = None
   \<and> upload_video (youtube video_only) (world False) = Some (lit ''upload_20240101_001000'')
   \<and> youtube_upload_id (fst (process_recording_pipeline plain_lib Map.empty video_only
        (Some (lit ''2024-01-01_00-00-00'')) guild_ctx (world False) recording_state_init))
       = Some (lit ''upload_20240101_001000'')
   \<and> Send ProcessingComplete \<in> set (snd (process_recording_pipeline plain_lib Map.empty video_only
        (Some (lit ''2024-01-01_00-00-00'')) guild_ctx (world False) recording_state_init))"
proof -
  have a: "glob_result (world False) = take_one # []" by (simp add: world_def)
  have b: "generate_transcript video_only take_one (world False) = None"
    by (simp add: generate_transcript_def world_def)
  have c: "upload_video (youtube video_only) (world False) = Some (lit ''upload_20240101_001000'')"
    by (simp add: upload_video_def world_def video_only_def truthy_def lit_def)
  have d: "str_format plain_lib (prompts_get Map.empty (lit ''upload_success'') (lit ''Video uploaded''))
             [(lit ''video_url'', lit ''https://youtube.com/watch?v='' @ lit ''upload_20240101_001000'')]
           = Inr (lit ''Video uploaded'')"
    by (simp add: plain_lib_def prompts_get_def lit_def prepend_def)
  have e: "\<not> (upload_to_s3 (cloud video_only) (world False)
              \<or> upload_to_rclone (cloud video_only) (world False))"
    by (simp add: upload_to_s3_def upload_to_rclone_def video_only_def truthy_def)
  show ?thesis
    using a b c d e upload_survives_transcript_failure
      [OF a b c, where lib = plain_lib and p = Map.empty
         and filename = "Some (lit ''2024-01-01_00-00-00'')" and c = guild_ctx
         and st = recording_state_init]
    by simp
qed

text \<open>
  The claim as first stated (the final message is sent in every such run) fails: with an S3
  bucket configured, the transfer succeeding, and the \<open>cloud_upload\<close> template set to
  \<open>Saved {path}\<close>, whose field the code does not supply, the run uploads the video,
  announces it, and ends on "Processing failed" without the final message.
\<close>

theorem template_error_ends_pipeline_counterexample:
  "glob_result (world False) = [take_one]
   \<and> generate_transcript video_and_s3 take_one (world False) = None
   \<and> upload_video (youtube video_and_s3) (world False) = Some (lit ''upload_20240101_001000'')
   \<and> snd (process_recording_pipeline plain_lib
             [lit ''cloud_upload'' \<mapsto> lit ''Saved {path}''] video_and_s3
             (Some (lit ''2024-01-01_00-00-00'')) guild_ctx (world False) recording_state_init)
       = [Send ProcessingStarted, GenerateTranscript take_one,
          UploadVideo take_one (lit ''Recording 2024-01-01_00-00-00'')
            (lit ''Automated recording from Discord channel general''),
          Send (VideoUploaded (lit ''Video uploaded'')),
          UploadToS3 take_one, UploadToRclone take_one,
          Send (ProcessingFailed (KeyError (lit ''path'')))]"
  by (simp add: process_recording_pipeline_def pipeline_transcript_def pipeline_youtube_def
        pipeline_cloud_def generate_transcript_def upload_video_def upload_to_s3_def
        upload_to_rclone_def truthy_def world_def video_only_def video_and_s3_def take_one_def
        guild_ctx_def fstr_opt_def plain_lib_def prompts_get_def lit_def prepend_def Let_def)

section \<open>The invariant of the session state\<close>

text \<open>Every handler and every stretch of the pipeline keeps the invariant.\<close>

lemma handle_record_start_inv:
  "session_inv st \<Longrightarrow> session_inv (fst (handle_record_start lib p c minutes env st))"
  by (simp add: handle_record_start_def session_inv_def Let_def split: sum.splits)

lemma handle_record_stop_inv:
  "session_inv st \<Longrightarrow> session_inv (fst (handle_record_stop p env st))"
  by (auto simp add: handle_record_stop_def session_inv_def Let_def split: option.splits)

lemma record_command_inv:
  "session_inv st \<Longrightarrow> session_inv (fst (record_command lib p c subcommand minutes env st))"
  by (simp add: record_command_def Let_def handle_record_start_inv handle_record_stop_inv
        split: option.splits)

lemma pipeline_transcript_inv:
  "session_inv st \<Longrightarrow> session_inv (fst (pipeline_transcript lib p sv c filename rf env st))"
  by (simp add: session_inv_def pipeline_transcript_frame)

lemma pipeline_youtube_inv:
  "session_inv st \<Longrightarrow> session_inv (fst (pipeline_youtube lib p sv c filename rf env st))"
  by (simp add: session_inv_def pipeline_youtube_frame)

lemma process_recording_pipeline_inv:
  "session_inv st \<Longrightarrow> session_inv (fst (process_recording_pipeline lib p sv filename c env st))"
  by (simp add: pipeline_state pipeline_transcript_inv pipeline_youtube_inv split: list.splits)

lemma reachable_session_inv: "reachable st \<Longrightarrow> session_inv st"
proof (induction rule: reachable.induct)
  case reach_init
  show ?case by (simp add: session_inv_def recording_state_init_def)
next
  case (reach_command st lib p c subcommand minutes env)
  then show ?case by (simp add: record_command_inv)
next
  case (reach_timer st p env)
  then show ?case by (simp add: handle_record_stop_inv)
next
  case (reach_transcript st lib p sv c filename rf penv)
  then show ?case by (simp add: pipeline_transcript_inv)
next
  case (reach_youtube st lib p sv c filename rf penv)
  then show ?case by (simp add: pipeline_youtube_inv)
next
  case (reach_pipeline st lib p sv filename c penv)
  then show ?case by (simp add: process_recording_pipeline_inv)
qed

text \<open>A start command on the initial state leads to the recording session above.\<close>

lemma reachable_recording_session: "reachable recording_session"
proof -
  have "fst (record_command plain_lib Map.empty guild_ctx (Some (lit ''start'')) 0
               (env_at obs_up 0) recording_state_init) = recording_session"
    by (simp add: record_command_def handle_record_start_def start_recording_def
          get_connection_def plain_lib_def ascii_lower_def prompts_get_def guild_ctx_def
          env_at_def obs_up_def recording_state_init_def recording_session_def lit_def
          prepend_def)
  then show ?thesis
    using reach_command [OF reach_init, of plain_lib Map.empty guild_ctx "Some (lit ''start'')" 0
            "env_at obs_up 0"]
    by simp
qed

text \<open>
  Claim C4.  \<open>start_time\<close> is set exactly when \<open>active\<close> is true.  This holds of the
  initial state; it is kept by the start handler, by the stop handler (also when the woken
  automatic stop calls it: the wake-up itself writes nothing), by every \<open>/record\<close>
  command (the status query and the upload listing among them, which return the state as
  it was), and by the pipeline and each of its stretches; so it holds of every reachable
  session state.
\<close>

theorem start_time_iff_active:
  "session_inv recording_state_init
   \<and> (session_inv st \<longrightarrow>
        session_inv (fst (handle_record_start lib p c minutes env st))
      \<and> session_inv (fst (handle_record_stop p env st))
      \<and> session_inv (if snd (handle_record_start_resume st)
                       then fst (handle_record_stop p env st) else st)
      \<and> session_inv (fst (record_command lib p c subcommand minutes env st))
      \<and> session_inv (fst (pipeline_transcript lib p sv c filename rf penv st))
      \<and> session_inv (fst (pipeline_youtube lib p sv c filename rf penv st))
      \<and> session_inv (fst (process_recording_pipeline lib p sv filename c penv st)))
   \<and> (reachable st' \<longrightarrow> (start_time st' \<noteq> None) = active st')"
proof (intro conjI impI)
  show "session_inv recording_state_init"
    by (simp add: session_inv_def recording_state_init_def)
  show "(start_time st' \<noteq> None) = active st'" if "reachable st'"
    using reachable_session_inv [OF that] by (simp add: session_inv_def)
qed (simp_all add: handle_record_start_inv handle_record_stop_inv
       record_command_inv pipeline_transcript_inv pipeline_youtube_inv
       process_recording_pipeline_inv)

theorem start_time_iff_active_witness:
  "session_inv recording_session \<and> reachable recording_session
   \<and> (start_time recording_session \<noteq> None) = active recording_session
   \<and> session_inv (fst (handle_record_stop Map.empty (env_at obs_up 60) recording_session))"
proof -
  have a: "session_inv recording_session"
    by (simp add: session_inv_def recording_session_def)
  show ?thesis
    using a reachable_recording_session
      start_time_iff_active [where st = recording_session and st' = recording_session
        and p = Map.empty and env = "env_at obs_up 60"]
    by blast
qed


text \<open>
  Claim C2, as amended.  After every successful stop transition (a reachable state with a
  session active, and the recorder confirming the stop) \<open>active\<close> is false, \<open>start_time\<close>
  is cleared, \<open>duration_minutes\<close> is 0 and \<open>recording_filename\<close> is cleared.  The stop
  changes nothing else: the post-processing fields \<open>transcript_path\<close>,
  \<open>github_commit_url\<close> and \<open>youtube_upload_id\<close> are left as they were (it is the next
  start that clears them).  The file name held before the reset is what the stop hands to
  the background task.
\<close>

theorem stop_resets_session_fields:
  assumes "reachable st" and "active st" and "stop_recording (obs env)"
  shows "fst (handle_record_stop p env st)
           = st\<lparr> active := False, start_time := None, duration_minutes := 0,
                  recording_filename := None \<rparr>
       \<and> active (fst (handle_record_stop p env st)) = False
       \<and> start_time (fst (handle_record_stop p env st)) = None
       \<and> duration_minutes (fst (handle_record_stop p env st)) = 0
       \<and> recording_filename (fst (handle_record_stop p env st)) = None
       \<and> transcript_path (fst (handle_record_stop p env st)) = transcript_path st
       \<and> github_commit_url (fst (handle_record_stop p env st)) = github_commit_url st
       \<and> youtube_upload_id (fst (handle_record_stop p env st)) = youtube_upload_id st
       \<and> last (snd (handle_record_stop p env st)) = CreateTask (recording_filename st)"
proof -
  have "session_inv st" using assms(1) by (rule reachable_session_inv)
  with assms(2) obtain t0 where "start_time st = Some t0"
    by (auto simp: session_inv_def)
  with assms(2,3) show ?thesis
    by (simp add: handle_record_stop_def Let_def)
qed

theorem stop_resets_session_fields_witness:
  "reachable recording_session \<and> active recording_session
   \<and> stop_recording (obs (env_at obs_up 60))
   \<and> fst (handle_record_stop Map.empty (env_at obs_up 60) recording_session)
       = recording_state_init
   \<and> last (snd (handle_record_stop Map.empty (env_at obs_up 60) recording_session))
       = CreateTask (Some (lit ''2024-01-01_00-00-00''))"
proof -
  have a: "active recording_session" by (simp add: recording_session_def)
  have b: "stop_recording (obs (env_at obs_up 60))"
    by (simp add: stop_recording_def get_connection_def env_at_def obs_up_def)
  have c: "recording_session\<lparr> active := False, start_time := None, duration_minutes := 0,
              recording_filename := None \<rparr> = recording_state_init"
    by (simp add: recording_session_def recording_state_init_def)
  have d: "recording_filename recording_session = Some (lit ''2024-01-01_00-00-00'')"
    by (simp add: recording_session_def)
  show ?thesis
    using a b c d reachable_recording_session
      stop_resets_session_fields [OF reachable_recording_session a b, where p = Map.empty]
    by simp
qed

text \<open>
  The claim as first stated (the post-processing fields are empty after a stop) fails on a
  session whose \<open>transcript_path\<close> was stored while it was recording, as happens when the
  pipeline of the session before is still running: the stop leaves the path in place.
\<close>

lemma reachable_with_transcript:
  "reachable (recording_session
       \<lparr> transcript_path := Some (lit ''/opt/virtualstudio/transcripts/2024-01-01_00-00-00.txt'') \<rparr>)"
proof -
  have "fst (pipeline_transcript plain_lib Map.empty video_only guild_ctx
               (Some (lit ''2024-01-01_00-00-00'')) take_one (world True) recording_session)
        = recording_session
            \<lparr> transcript_path := Some (lit ''/opt/virtualstudio/transcripts/2024-01-01_00-00-00.txt'') \<rparr>"
    by (simp add: pipeline_transcript_def generate_transcript_def upload_transcript_def
          commit_file_def py_or_def truthy_def world_def video_only_def take_one_def
          lit_def Let_def)
  then show ?thesis
    using reach_transcript [OF reachable_recording_session, of plain_lib Map.empty video_only
            guild_ctx "Some (lit ''2024-01-01_00-00-00'')" take_one "world True"]
    by simp
qed

theorem stop_keeps_transcript_counterexample:
  "reachable (recording_session
       \<lparr> transcript_path := Some (lit ''/opt/virtualstudio/transcripts/2024-01-01_00-00-00.txt'') \<rparr>)
   \<and> active (recording_session
       \<lparr> transcript_path := Some (lit ''/opt/virtualstudio/transcripts/2024-01-01_00-00-00.txt'') \<rparr>)
   \<and> stop_recording (obs (env_at obs_up 60))
   \<and> active (fst (handle_record_stop Map.empty (env_at obs_up 60)
        (recording_session
           \<lparr> transcript_path := Some (lit ''/opt/virtualstudio/transcripts/2024-01-01_00-00-00.txt'') \<rparr>)))
       = False
   \<and> transcript_path (fst (handle_record_stop Map.empty (env_at obs_up 60)
        (recording_session
           \<lparr> transcript_path := Some (lit ''/opt/virtualstudio/transcripts/2024-01-01_00-00-00.txt'') \<rparr>)))
       = Some (lit ''/opt/virtualstudio/transcripts/2024-01-01_00-00-00.txt'')"
proof -
  have "stop_recording (obs (env_at obs_up 60))"
    by (simp add: stop_recording_def get_connection_def env_at_def obs_up_def)
  then show ?thesis
    using reachable_with_transcript
    by (simp add: handle_record_stop_def recording_session_def Let_def)
qed

section \<open>The bot-name line of the configuration file\<close>

































text \<open>
  The ways the line gets in: replacing the first name line and no other, and following the
  header.  Where the encoding cannot take the new line's pictograph, the file is left empty.
\<close>

lemma update_env_file_examples:
  "update_env_file utf8_posix
     (Inr (lit ''A=1'' @ [10] @ lit ''DISCORD_BOT_NAME=Old'' @ [10] @ lit ''DISCORD_BOT_NAME=Two''))
     (lit ''New'')
     = (Rewritten (lit ''A=1'' @ [10] @ name_line (lit ''New'') @ [10] @ lit ''DISCORD_BOT_NAME=Two''),
        None)"
  "update_env_file utf8_posix (Inr (lit '' # Discord Bot Configuration '' @ [10] @ lit ''B=2''))
     (lit ''New'')
     = (Rewritten (lit '' # Discord Bot Configuration '' @ [10] @ name_line (lit ''New'') @ [10]
                     @ lit ''B=2''), None)"
  "update_env_file ascii_posix (Inr (lit ''DISCORD_BOT_NAME=Old'')) (lit ''New'')
     = (Truncated, Some (ValueError (lit ''ordinal not in range(128)'')))"
  by (simp_all add: update_env_file_def update_env_lines_def startswith_def name_prefix_def
        py_strip_def isspace_def section_header_def name_line_def utf8_posix_def
        ascii_posix_def write_newlines_def lit_def)

end
